theory Spec2Isabelle
  imports Complex_Main
begin

section \<open>Python strings\<close>

text \<open>
  A Python \<open>str\<close> is modelled as a \<open>string\<close> whose characters are the code points
  U+0000 .. U+00FF. On that range \<open>str.isspace\<close> and \<open>str.isdigit\<close> are the two
  predicates below (the superscripts U+00B2, U+00B3 and U+00B9 are digits for Python).
\<close>

definition nl :: char where
  "nl = CHR 0x0A"

definition isspace :: "char \<Rightarrow> bool" where
  "isspace c = (c \<in> set [CHR 0x09, CHR 0x0A, CHR 0x0B, CHR 0x0C, CHR 0x0D,
                          CHR 0x1C, CHR 0x1D, CHR 0x1E, CHR 0x1F, CHR 0x20,
                          CHR 0x85, CHR 0xA0])"

definition isdigit :: "char \<Rightarrow> bool" where
  "isdigit c = (c \<in> set (''0123456789'' @ [CHR 0xB2, CHR 0xB3, CHR 0xB9]))"

text \<open>\<open>s.isdigit()\<close> on a whole string: non-empty and every character a digit.\<close>

definition str_isdigit :: "string \<Rightarrow> bool" where
  "str_isdigit s = (s \<noteq> [] \<and> list_all isdigit s)"

definition strip :: "string \<Rightarrow> string" where
  "strip s = rev (dropWhile isspace (rev (dropWhile isspace s)))"

definition startswith :: "string \<Rightarrow> string \<Rightarrow> bool" where
  "startswith s p = (take (length p) s = p)"

text \<open>\<open>s.find(sep)\<close>: the index of the first occurrence, \<open>None\<close> for Python's -1.\<close>

fun find_sub :: "string \<Rightarrow> string \<Rightarrow> nat option" where
  "find_sub sep [] = (if sep = [] then Some 0 else None)"
| "find_sub sep (x # xs) =
     (if startswith (x # xs) sep then Some 0 else map_option Suc (find_sub sep xs))"

text \<open>\<open>sep in s\<close>.\<close>

definition contains :: "string \<Rightarrow> string \<Rightarrow> bool" where
  "contains sep s = (find_sub sep s \<noteq> None)"

text \<open>\<open>s.split(sep, 1)\<close>: cut at the first occurrence of \<open>sep\<close>, if there is one.\<close>

definition split_once :: "string \<Rightarrow> string \<Rightarrow> string list" where
  "split_once sep s =
     (case find_sub sep s of
        None \<Rightarrow> [s]
      | Some i \<Rightarrow> [take i s, drop (i + length sep) s])"

text \<open>\<open>s.split(c)\<close> for a one-character separator; the result is never empty.\<close>

fun split_chr :: "char \<Rightarrow> string \<Rightarrow> string list" where
  "split_chr c [] = [[]]"
| "split_chr c (x # xs) =
     (if x = c then [] # split_chr c xs
      else (case split_chr c xs of
              [] \<Rightarrow> [[x]]
            | w # ws \<Rightarrow> (x # w) # ws))"

text \<open>Truthiness of a value that is a string or \<open>None\<close>.\<close>

definition truthy :: "string option \<Rightarrow> bool" where
  "truthy v = (case v of None \<Rightarrow> False | Some s \<Rightarrow> s \<noteq> [])"

section \<open>The suggestion parser\<close>

text \<open>
  The body of the loop of \<open>generate_suggested_responses\<close> over the lines of the
  response: the suggestion the line contributes, if any.
\<close>

definition line_suggestion :: "string \<Rightarrow> string option" where
  "line_suggestion line =
     (let line_strip = strip line in
      if line_strip \<noteq> [] \<and> isdigit (hd line_strip) \<and> contains ''. '' line_strip then
        (let parts = split_once ''. '' line_strip in
         if length parts = 2 \<and> strip (parts ! 1) \<noteq> [] then Some (strip (parts ! 1))
         else None)
      else None)"

fun collect_suggestions :: "string list \<Rightarrow> string list \<Rightarrow> string list" where
  "collect_suggestions suggestions [] = suggestions"
| "collect_suggestions suggestions (line # lines) =
     collect_suggestions
       (case line_suggestion line of
          None \<Rightarrow> suggestions
        | Some s \<Rightarrow> suggestions @ [s])
       lines"

definition parse_suggestions :: "string \<Rightarrow> string list" where
  "parse_suggestions suggestions_text =
     (let lines = split_chr nl (strip suggestions_text);
          suggestions = collect_suggestions [] lines;
          suggestions' =
            (if suggestions = [] \<and> length lines \<ge> 1
             then take 3 (filter (\<lambda>l. l \<noteq> []) (map strip lines))
             else suggestions)
      in take 3 suggestions')"

section \<open>The hosted services and the environment\<close>

datatype role = System | User | Assistant

type_synonym message = "role \<times> string"

record request =
  req_model :: string
  req_messages :: "message list"
  req_max_tokens :: nat
  req_temperature :: rat

text \<open>
  One turn of the chat history: the user's text and the assistant's text. The chat
  widget may hold \<open>None\<close> in either place, and the code tests both for truthiness.
\<close>

type_synonym turn = "string option \<times> string option"

text \<open>
  The calls made on the PDF object. \<open>Bullet\<close> stands for the one-character string
  U+2022 that \<open>create_pdf\<close> passes to \<open>cell\<close>; it lies outside the modelled code points.
\<close>

datatype pdf_text = Txt string | Bullet

datatype pdf_op =
    NewFPDF
  | AddPage
  | SetAutoPageBreak bool nat
  | SetFont string string nat
  | Ln rat
  | MultiCell rat rat string
  | Cell rat rat pdf_text nat
  | SetX rat
  | SetTextColor nat nat nat
  | Output string

text \<open>
  The state of the PDF object is the history of the calls made on it, each with whether
  it returned (\<open>True\<close>) or raised (\<open>False\<close>). Whether a call raises is decided by the
  library, which is not part of the program: it is a function of that history and the call,
  \<open>None\<close> when the call returns and \<open>Some\<close> text of the exception when it raises.
  A statement ends normally or with an exception, of which the text is kept.
\<close>

type_synonym trace = "(pdf_op \<times> bool) list"

datatype outcome = Returned | Raised string

type_synonym stmt = "trace \<Rightarrow> trace \<times> outcome"

text \<open>
  Everything outside the program. A hosted call answers \<open>Inr\<close> its result or \<open>Inl\<close> the
  text of the exception it raised; a temporary file is \<open>Some\<close> path or \<open>None\<close> when its
  creation raised. The three prompt constants are long literals on which nothing depends.
  \<open>print_raises\<close> is the standard output stream: \<open>None\<close> when printing a text returns,
  \<open>Some\<close> text of the exception when the stream cannot take it.
\<close>

record env =
  SYSTEM_PROMPT :: string
  SUGGESTED_RESPONSES_PROMPT :: string
  SUMMARY_SYSTEM_PROMPT :: string
  chat_completions_create :: "request \<Rightarrow> string + string"
  audio_transcriptions_create :: "string \<Rightarrow> string + string"
  audio_speech_raises :: "string \<Rightarrow> string \<Rightarrow> bool"
  mp3_tempfile :: "string option"
  txt_tempfile :: "string option"
  pdf_tempfile :: "string option"
  file_write_raises :: "string \<Rightarrow> bool"
  now_strftime :: string
  FPDF_present :: bool
  fpdf_raises :: "trace \<Rightarrow> pdf_op \<Rightarrow> string option"
  print_raises :: "string \<Rightarrow> string option"

section \<open>Core functions\<close>



text \<open>The loop of \<open>ai_tutor\<close> over the history, appending to the message list.\<close>

fun append_history :: "message list \<Rightarrow> turn list \<Rightarrow> message list" where
  "append_history msgs [] = msgs"
| "append_history msgs ((human, ai) # history) =
     append_history
       ((msgs @ (if truthy human then [(User, the human)] else []))
             @ (if truthy ai then [(Assistant, the ai)] else []))
       history"

definition ai_tutor_messages :: "env \<Rightarrow> string \<Rightarrow> turn list \<Rightarrow> message list" where
  "ai_tutor_messages e user_input history =
     append_history [(System, SYSTEM_PROMPT e)] history @ [(User, user_input)]"

definition ai_tutor_request :: "env \<Rightarrow> string \<Rightarrow> turn list \<Rightarrow> request" where
  "ai_tutor_request e user_input history =
     \<lparr>req_model = ''gpt-4o'', req_messages = ai_tutor_messages e user_input history,
      req_max_tokens = 500, req_temperature = 7 / 10\<rparr>"

text \<open>
  The functions that call the completion endpoint return, next to their result, the
  list of the completion requests they issued.
\<close>

definition ai_tutor :: "env \<Rightarrow> string \<Rightarrow> turn list \<Rightarrow> string \<times> request list" where
  "ai_tutor e user_input history =
     (let req = ai_tutor_request e user_input history in
      (case chat_completions_create e req of
         Inr reply \<Rightarrow> reply
       | Inl err \<Rightarrow>
           ''Error: '' @ err @ [nl, nl] @ ''Please check your API key/quota and connection.'',
       [req]))"

definition suggestions_request :: "env \<Rightarrow> string \<Rightarrow> request" where
  "suggestions_request e tutor_message =
     \<lparr>req_model = ''gpt-4o-mini'',
      req_messages =
        [(System, SUGGESTED_RESPONSES_PROMPT e),
         (User, ''Generate 3 student response suggestions for this tutor message:''
                  @ [nl, nl] @ tutor_message)],
      req_max_tokens = 150, req_temperature = 8 / 10\<rparr>"

definition generate_suggested_responses ::
    "env \<Rightarrow> string \<Rightarrow> string list \<times> request list" where
  "generate_suggested_responses e tutor_message =
     (if tutor_message = [] \<or> startswith tutor_message ''Error'' then ([], [])
      else
        (let req = suggestions_request e tutor_message in
         (case chat_completions_create e req of
            Inr suggestions_text \<Rightarrow> parse_suggestions suggestions_text
          | Inl err \<Rightarrow> [''Error generating suggestions.''],
          [req])))"

text \<open>The transcript text of \<open>generate_study_guide_content\<close>; \<open>None\<close> formats as "None".\<close>

definition format_str :: "string option \<Rightarrow> string" where
  "format_str v = (case v of None \<Rightarrow> ''None'' | Some s \<Rightarrow> s)"

fun append_transcript :: "string \<Rightarrow> turn list \<Rightarrow> string" where
  "append_transcript conversation_text [] = conversation_text"
| "append_transcript conversation_text ((human, ai) # chat_history) =
     append_transcript
       ((conversation_text @ ''STUDENT: '' @ format_str human @ [nl, nl])
          @ (if truthy ai then ''TUTOR: '' @ the ai @ [nl, nl] else []))
       chat_history"

definition study_guide_request :: "env \<Rightarrow> turn list \<Rightarrow> request" where
  "study_guide_request e chat_history =
     \<lparr>req_model = ''gpt-4o'',
      req_messages =
        [(System, SUMMARY_SYSTEM_PROMPT e),
         (User, ''Please create a concise study guide based on this tutoring conversation:''
                  @ [nl, nl]
                  @ append_transcript (''### TUTORING SESSION TRANSCRIPT ###'' @ [nl, nl])
                      chat_history)],
      req_max_tokens = 2000, req_temperature = 5 / 10\<rparr>"

definition generate_study_guide_content :: "env \<Rightarrow> turn list \<Rightarrow> string \<times> request list" where
  "generate_study_guide_content e chat_history =
     (if chat_history = [] then (''No conversation history to create a study guide from.'', [])
      else
        (let req = study_guide_request e chat_history in
         (case chat_completions_create e req of
            Inr study_guide_content \<Rightarrow>
              if \<not> startswith (strip study_guide_content) ''#''
              then ''# Study Guide: Tutoring Session'' @ [nl, nl] @ study_guide_content
              else study_guide_content
          | Inl err \<Rightarrow> ''Error generating study guide: '' @ err,
          [req])))"

definition create_text_file :: "env \<Rightarrow> string \<Rightarrow> string option" where
  "create_text_file e study_guide_text =
     (case txt_tempfile e of
        None \<Rightarrow> None
      | Some file_path \<Rightarrow>
          if list_ex (file_write_raises e)
               [''STEM TUTOR - STUDY GUIDE'' @ [nl],
                replicate 30 CHR ''='' @ [nl, nl],
                study_guide_text,
                [nl, nl] @ replicate 30 CHR ''='' @ [nl],
                ''Generated on '' @ now_strftime e @ [nl]]
          then None
          else Some file_path)"

section \<open>Rendering the study guide as PDF\<close>

text \<open>
  One call on the PDF object, and a straight-line sequence of calls: the first call that
  raises ends the sequence with the exception.
\<close>

fun calls :: "(trace \<Rightarrow> pdf_op \<Rightarrow> string option) \<Rightarrow> pdf_op list \<Rightarrow> stmt" where
  "calls raises [] tr = (tr, Returned)"
| "calls raises (c # cs) tr =
     (case raises tr c of
        Some err \<Rightarrow> (tr @ [(c, False)], Raised err)
      | None \<Rightarrow> calls raises cs (tr @ [(c, True)]))"

text \<open>\<open>print(text)\<close> on a stream; it leaves the PDF object as it is.\<close>

definition print_to :: "(string \<Rightarrow> string option) \<Rightarrow> string \<Rightarrow> stmt" where
  "print_to out text tr =
     (case out text of
        Some err \<Rightarrow> (tr, Raised err)
      | None \<Rightarrow> (tr, Returned))"

text \<open>Two statements in sequence: an exception in the first skips the second.\<close>

definition seq :: "stmt \<Rightarrow> stmt \<Rightarrow> stmt" where
  "seq first second tr =
     (case first tr of
        (tr', Returned) \<Rightarrow> second tr'
      | (tr', Raised err) \<Rightarrow> (tr', Raised err))"

text \<open>
  \<open>try: body except Exception as err: handler\<close>, where an exception of the handler
  leaves the statement, and \<open>try: body except: pass\<close>.
\<close>

definition try_except :: "stmt \<Rightarrow> (string \<Rightarrow> stmt) \<Rightarrow> stmt" where
  "try_except body handler tr =
     (case body tr of
        (tr', Returned) \<Rightarrow> (tr', Returned)
      | (tr', Raised err) \<Rightarrow> handler err tr')"

definition try_pass :: "stmt \<Rightarrow> stmt" where
  "try_pass body tr = (fst (body tr), Returned)"

text \<open>\<open>for x in xs: step\<close>; an exception that leaves the step leaves the loop.\<close>

fun for_each :: "('a \<Rightarrow> stmt) \<Rightarrow> 'a list \<Rightarrow> stmt" where
  "for_each step [] tr = (tr, Returned)"
| "for_each step (x # xs) tr =
     (case step x tr of
        (tr', Returned) \<Rightarrow> for_each step xs tr'
      | (tr', Raised err) \<Rightarrow> (tr', Raised err))"

definition line_height :: rat where
  "line_height = 6"

definition skip_marker :: string where
  "skip_marker = ''[Skipped line due to processing error]''"

text \<open>
  The calls the body of the per-line \<open>try\<close> makes for a line, in order. The branch taken
  depends on the line alone. \<open>line.encode('latin-1', 'ignore')\<close> cannot raise and its
  result is dropped.
\<close>

definition line_ops :: "string \<Rightarrow> pdf_op list" where
  "line_ops line =
     (let line_strip = strip line in
      if startswith line ''# '' then
        [SetFont ''Arial'' ''B'' 16, Ln line_height,
         MultiCell 0 line_height (drop 2 line_strip), Ln (line_height * (1 / 2))]
      else if startswith line ''## '' then
        [SetFont ''Arial'' ''B'' 14, Ln (line_height * (1 / 2)),
         MultiCell 0 line_height (drop 3 line_strip), Ln (line_height * (1 / 2))]
      else if startswith line ''### '' then
        [SetFont ''Arial'' ''BI'' 12, Ln (line_height * (1 / 2)),
         MultiCell 0 line_height (drop 4 line_strip), Ln (line_height * (1 / 2))]
      else if startswith line_strip ''- '' \<or> startswith line_strip ''* '' then
        [SetFont ''Arial'' [] 12, SetX 15, Cell 5 line_height Bullet 0,
         MultiCell 0 line_height (drop 2 line_strip), SetX 10]
      else if line_strip \<noteq> [] \<and> isdigit (hd line_strip) \<and> contains ''. '' line_strip then
        (let parts = split_once ''. '' line_strip in
         if length parts = 2 \<and> str_isdigit (parts ! 0) then
           [SetFont ''Arial'' [] 12, SetX 15,
            Cell 5 line_height (Txt (parts ! 0 @ ''.'')) 0,
            MultiCell 0 line_height (parts ! 1), SetX 10]
         else
           [SetFont ''Arial'' [] 12, MultiCell 0 line_height line])
      else if line_strip \<noteq> [] then
        [SetFont ''Arial'' [] 12, MultiCell 0 line_height line]
      else
        [Ln (line_height * (1 / 2))])"

text \<open>The calls of the inner, guarded \<open>try\<close> of the \<open>except\<close> branch, which writes the placeholder.\<close>

definition placeholder_ops :: "pdf_op list" where
  "placeholder_ops =
     [SetFont ''Arial'' ''I'' 8, SetTextColor 255 0 0,
      MultiCell 0 line_height skip_marker, SetTextColor 0 0 0]"

text \<open>
  The body of the loop for one line. The \<open>except\<close> branch first prints the error and the
  first 50 characters of the stripped line; that \<open>print\<close> is not inside the inner \<open>try\<close>,
  so an exception of it leaves the branch, and with it the loop.
\<close>

definition render_line :: "env \<Rightarrow> string \<Rightarrow> stmt" where
  "render_line e line =
     try_except (calls (fpdf_raises e) (line_ops line))
       (\<lambda>line_error.
          seq (print_to (print_raises e)
                 (''Skipping PDF line due to error: '' @ line_error @ '' - Line: ''
                    @ [CHR 0x27] @ take 50 (strip line) @ ''...'' @ [CHR 0x27]))
              (try_pass (calls (fpdf_raises e) placeholder_ops)))"

definition render_lines :: "env \<Rightarrow> string list \<Rightarrow> stmt" where
  "render_lines e lines = for_each (render_line e) lines"

definition create_pdf :: "env \<Rightarrow> string \<Rightarrow> string option" where
  "create_pdf e study_guide_text =
     (if \<not> FPDF_present e then None
      else
        (case calls (fpdf_raises e)
                [NewFPDF, AddPage, SetAutoPageBreak True 15, SetFont ''Arial'' [] 12] [] of
           (tr, Raised err) \<Rightarrow> None
         | (tr, Returned) \<Rightarrow>
             (case render_lines e (split_chr nl (strip study_guide_text)) tr of
                (tr', Raised err) \<Rightarrow> None
              | (tr', Returned) \<Rightarrow>
                  (case pdf_tempfile e of
                     None \<Rightarrow> None
                   | Some pdf_path \<Rightarrow>
                       (case calls (fpdf_raises e) [Output pdf_path] tr' of
                          (tr'', Raised err) \<Rightarrow> None
                        | (tr'', Returned) \<Rightarrow> Some pdf_path)))))"

definition save_study_guide :: "env \<Rightarrow> string \<Rightarrow> string option \<times> string" where
  "save_study_guide e study_guide_text =
     (let pdf_path = create_pdf e study_guide_text in
      if truthy pdf_path then (pdf_path, ''Study guide created as PDF!'')
      else
        (let text_path = create_text_file e study_guide_text in
         if truthy text_path then (text_path, ''Study guide created as Text (PDF failed).'')
         else (None, ''Error creating study guide file (PDF/Text).'')))"

section \<open>The handlers of the interface\<close>

text \<open>\<open>gr.Button(value=..., visible=...)\<close>; a hidden button is built without a value.\<close>

datatype button = Button "string option" bool

text \<open>\<open>gr.File.update(value=..., visible=...)\<close>.\<close>

datatype file_update = File_update "string option" bool

definition use_suggestion :: "string \<Rightarrow> string" where
  "use_suggestion suggestion = suggestion"

definition suggestion_button :: "string list \<Rightarrow> nat \<Rightarrow> button" where
  "suggestion_button suggestions i =
     (if i < length suggestions \<and> suggestions ! i \<noteq> []
         \<and> \<not> startswith (suggestions ! i) ''Error''
      then Button (Some (suggestions ! i)) True
      else Button None False)"

definition update_suggestions :: "string list \<Rightarrow> button \<times> button \<times> button" where
  "update_suggestions suggestions =
     (let updates = map (suggestion_button suggestions) [0, 1, 2] in
      (updates ! 0, updates ! 1, updates ! 2))"




text \<open>
  The outer \<open>try\<close> of \<open>create_and_download_study_guide\<close> has nothing to catch here:
  the functions it calls turn their failures into values.
\<close>

definition create_and_download_study_guide ::
    "env \<Rightarrow> turn list \<Rightarrow> (file_update \<times> string) \<times> request list" where
  "create_and_download_study_guide e chat_history =
     (if chat_history = [] then
        ((File_update None False, ''*Please have a conversation first.*''), [])
      else
        (case generate_study_guide_content e chat_history of
           (study_guide_text, reqs) \<Rightarrow>
             if startswith study_guide_text ''Error'' then
               ((File_update None False,
                 ''*Error generating content: '' @ study_guide_text @ ''*''), reqs)
             else
               (case save_study_guide e study_guide_text of
                  (file_path, status_message) \<Rightarrow>
                    if truthy file_path then
                      ((File_update file_path True, ''*'' @ status_message @ ''*''), reqs)
                    else
                      ((File_update None False, ''*Error: '' @ status_message @ ''*''),
                       reqs))))"

definition clear_chat ::
    "turn list \<times> string option \<times> string \<times> button \<times> button \<times> button \<times> file_update \<times> string"
  where
  "clear_chat =
     ([], None, [], Button None False, Button None False, Button None False,
      File_update None False, [])"

section \<open>Sample environments\<close>

text \<open>Concrete environments on which the theorems below are instantiated.\<close>

definition answers :: "string \<Rightarrow> request \<Rightarrow> string + string" where
  "answers reply req = Inr reply"

definition api_fails :: "string \<Rightarrow> request \<Rightarrow> string + string" where
  "api_fails err req = Inl err"

definition never_raises :: "trace \<Rightarrow> pdf_op \<Rightarrow> string option" where
  "never_raises tr c = None"

text \<open>A PDF object on which every \<open>multi_cell\<close> raises, whatever the text.\<close>

definition multi_cell_raises :: "trace \<Rightarrow> pdf_op \<Rightarrow> string option" where
  "multi_cell_raises tr c =
     (case c of MultiCell w h txt \<Rightarrow> Some ''Not enough horizontal space'' | _ \<Rightarrow> None)"

text \<open>A PDF object whose font covers U+0000 .. U+007F only.\<close>

definition beyond_font :: "string \<Rightarrow> bool" where
  "beyond_font txt = list_ex (\<lambda>ch. \<not> (of_char ch :: nat) < 128) txt"

definition font_raises :: "trace \<Rightarrow> pdf_op \<Rightarrow> string option" where
  "font_raises tr c =
     (case c of
        MultiCell w h txt \<Rightarrow>
          if beyond_font txt then Some ''Character outside the range of the font'' else None
      | Cell w h (Txt txt) nxt \<Rightarrow>
          if beyond_font txt then Some ''Character outside the range of the font'' else None
      | Cell w h Bullet nxt \<Rightarrow> Some ''Character outside the range of the font''
      | _ \<Rightarrow> None)"

text \<open>A standard output that encodes U+0000 .. U+007F only, and one that takes any text.\<close>

definition ascii_stdout :: "string \<Rightarrow> string option" where
  "ascii_stdout text =
     (if beyond_font text then Some ''codec cannot encode character'' else None)"

definition utf8_stdout :: "string \<Rightarrow> string option" where
  "utf8_stdout text = None"

definition sample_env ::
    "(request \<Rightarrow> string + string) \<Rightarrow> (trace \<Rightarrow> pdf_op \<Rightarrow> string option) \<Rightarrow> env" where
  "sample_env chat raises =
     \<lparr>SYSTEM_PROMPT = ''You are a patient STEM tutor.'',
      SUGGESTED_RESPONSES_PROMPT = ''Generate 3 student responses.'',
      SUMMARY_SYSTEM_PROMPT = ''You are a study-guide generator.'',
      chat_completions_create = chat,
      audio_transcriptions_create = (\<lambda>path. Inr ''What is a fraction?''),
      audio_speech_raises = (\<lambda>voice text. False),
      mp3_tempfile = Some ''/tmp/speech.mp3'',
      txt_tempfile = Some ''/tmp/guide.txt'',
      pdf_tempfile = Some ''/tmp/guide.pdf'',
      file_write_raises = (\<lambda>data. False),
      now_strftime = ''2025-01-01 12:00'',
      FPDF_present = True,
      fpdf_raises = raises,
      print_raises = utf8_stdout\<rparr>"

section \<open>Properties of the suggestion generator\<close>

text \<open>
  C6. Applied to the well-formed numbered response "1. a\n2. b\n3. c", the suggestion
  parser returns exactly the three suggestions "a", "b", "c", in that order.
\<close>

theorem parse_numbered_response:
  "parse_suggestions (''1. a'' @ [nl] @ ''2. b'' @ [nl] @ ''3. c'') = [''a'', ''b'', ''c'']"
  by code_simp

text \<open>
  C9. When the tutor message is the empty string or begins with "Error", the suggestion
  generator returns the empty list and issues no completion request.
\<close>

theorem no_suggestions_for_broken_turn:
  "tutor_message = [] \<or> startswith tutor_message ''Error'' \<Longrightarrow>
   generate_suggested_responses e tutor_message = ([], [])"
  by (simp add: generate_suggested_responses_def)

theorem no_suggestions_for_broken_turn_witness:
  "([] = ([]::string) \<or> startswith [] ''Error'')
   \<and> generate_suggested_responses (sample_env (answers ''1. a'') never_raises) [] = ([], [])
   \<and> startswith ''Error: timeout'' ''Error''
   \<and> generate_suggested_responses (sample_env (answers ''1. a'') never_raises)
         ''Error: timeout'' = ([], [])"
  using no_suggestions_for_broken_turn
          [of "[]" "sample_env (answers ''1. a'') never_raises"]
        no_suggestions_for_broken_turn
          [of "''Error: timeout''" "sample_env (answers ''1. a'') never_raises"]
  by (simp add: startswith_def)

section \<open>Properties of the suggestion buttons\<close>

lemma suggestion_button_visible:
  "suggestion_button suggestions i = Button v True \<Longrightarrow>
   i < length suggestions \<and> v = Some (suggestions ! i) \<and> suggestions ! i \<noteq> []
     \<and> \<not> startswith (suggestions ! i) ''Error''"
  by (auto simp: suggestion_button_def split: if_splits)

lemma update_suggestions_buttons:
  "update_suggestions suggestions =
     (suggestion_button suggestions 0, suggestion_button suggestions 1,
      suggestion_button suggestions 2)"
  by (simp add: update_suggestions_def)

text \<open>
  C10. Whatever list is passed to \<open>update_suggestions\<close>, a button that comes out visible
  is the one of a position below the length of the list, carries the suggestion at that
  position, and that suggestion is non-empty and does not start with "Error". The list
  ["Error generating suggestions."] hides all three buttons, and so does the list the
  generator returns when its completion call fails.
\<close>

theorem visible_button_shows_valid_suggestion:
  "(update_suggestions suggestions = (b0, b1, b2) \<and> i < 3 \<and> [b0, b1, b2] ! i = Button v True
      \<longrightarrow> i < length suggestions \<and> v = Some (suggestions ! i) \<and> suggestions ! i \<noteq> []
            \<and> \<not> startswith (suggestions ! i) ''Error'')
   \<and> update_suggestions [''Error generating suggestions.''] =
       (Button None False, Button None False, Button None False)
   \<and> (chat_completions_create e (suggestions_request e tutor_message) = Inl err
      \<longrightarrow> update_suggestions (fst (generate_suggested_responses e tutor_message)) =
            (Button None False, Button None False, Button None False))"
proof (intro conjI impI)
  assume a: "update_suggestions suggestions = (b0, b1, b2) \<and> i < 3
             \<and> [b0, b1, b2] ! i = Button v True"
  then have "i = 0 \<or> i = 1 \<or> i = 2" by auto
  with a have "suggestion_button suggestions i = Button v True"
    by (auto simp: update_suggestions_buttons)
  then show "i < length suggestions" "v = Some (suggestions ! i)" "suggestions ! i \<noteq> []"
    "\<not> startswith (suggestions ! i) ''Error''"
    using suggestion_button_visible by blast+
next
  show s: "update_suggestions [''Error generating suggestions.''] =
       (Button None False, Button None False, Button None False)"
    by (simp add: update_suggestions_def suggestion_button_def startswith_def)
  assume "chat_completions_create e (suggestions_request e tutor_message) = Inl err"
  then show "update_suggestions (fst (generate_suggested_responses e tutor_message)) =
            (Button None False, Button None False, Button None False)"
    using s by (simp add: generate_suggested_responses_def Let_def)
       (simp add: update_suggestions_def suggestion_button_def)
qed

theorem visible_button_shows_valid_suggestion_witness:
  "update_suggestions [''Why?'', ''Error: x''] =
     (Button (Some ''Why?'') True, Button None False, Button None False)
   \<and> (0::nat) < 3
   \<and> [Button (Some ''Why?'') True, Button None False, Button None False] ! 0 =
       Button (Some ''Why?'') True
   \<and> 0 < length [''Why?'', ''Error: x'']
   \<and> \<not> startswith ([''Why?'', ''Error: x''] ! 0) ''Error''
   \<and> chat_completions_create (sample_env (api_fails ''timeout'') never_raises)
        (suggestions_request (sample_env (api_fails ''timeout'') never_raises) ''Hello'') =
       Inl ''timeout''
   \<and> update_suggestions
        (fst (generate_suggested_responses (sample_env (api_fails ''timeout'') never_raises)
                ''Hello'')) =
       (Button None False, Button None False, Button None False)"
  using visible_button_shows_valid_suggestion
     [of "[''Why?'', ''Error: x'']" "Button (Some ''Why?'') True" "Button None False"
         "Button None False" 0 "Some ''Why?''"
         "sample_env (api_fails ''timeout'') never_raises" "''Hello''" "''timeout''"]
  by (simp add: update_suggestions_buttons suggestion_button_def startswith_def
        sample_env_def api_fails_def)

section \<open>Properties of the study-guide export\<close>

text \<open>
  C8. For the empty transcript the export handler returns a hidden file component with
  no path and the status "*Please have a conversation first.*", and it issues no
  completion request; the content generator itself, given the empty transcript,
  returns its fixed message without issuing a request either.
\<close>

theorem export_empty_transcript:
  "create_and_download_study_guide e [] =
     ((File_update None False, ''*Please have a conversation first.*''), [])
   \<and> generate_study_guide_content e [] =
     (''No conversation history to create a study guide from.'', [])"
  by (simp add: create_and_download_study_guide_def generate_study_guide_content_def)

section \<open>Properties of the completion client\<close>

lemma append_history_concat:
  "append_history msgs history =
     msgs @ concat (map (\<lambda>(human, ai).
                      (if truthy human then [(User, the human)] else [])
                        @ (if truthy ai then [(Assistant, the ai)] else [])) history)"
  by (induction history arbitrary: msgs) auto

lemma concat_map_full_turns:
  "\<forall>t \<in> set history. truthy (fst t) \<and> truthy (snd t) \<Longrightarrow>
   concat (map (\<lambda>(human, ai).
                      (if truthy human then [(User, the human)] else [])
                        @ (if truthy ai then [(Assistant, the ai)] else [])) history)
   = concat (map (\<lambda>(human, ai). [(User, the human), (Assistant, the ai)]) history)"
  by (induction history) auto

text \<open>
  C7 (as the code has it). The message list of \<open>ai_tutor\<close> is the system message, then for
  each turn of the history, in order, a user message if the turn's user text is present
  and non-empty and an assistant message if its reply is present and non-empty, then the
  new user utterance as the last message. When every turn has both texts, that is exactly
  one user message and one assistant message per turn. This list is the message list of
  the single request the function issues.
\<close>

theorem ai_tutor_message_list:
  "ai_tutor_messages e user_input history =
     (System, SYSTEM_PROMPT e)
       # concat (map (\<lambda>(human, ai).
                      (if truthy human then [(User, the human)] else [])
                        @ (if truthy ai then [(Assistant, the ai)] else [])) history)
       @ [(User, user_input)]
   \<and> ((\<forall>t \<in> set history. truthy (fst t) \<and> truthy (snd t)) \<longrightarrow>
        ai_tutor_messages e user_input history =
          (System, SYSTEM_PROMPT e)
            # concat (map (\<lambda>(human, ai). [(User, the human), (Assistant, the ai)]) history)
            @ [(User, user_input)])
   \<and> snd (ai_tutor e user_input history) = [ai_tutor_request e user_input history]
   \<and> req_messages (ai_tutor_request e user_input history) =
       ai_tutor_messages e user_input history"
proof (intro conjI impI)
  show g: "ai_tutor_messages e user_input history =
     (System, SYSTEM_PROMPT e)
       # concat (map (\<lambda>(human, ai).
                      (if truthy human then [(User, the human)] else [])
                        @ (if truthy ai then [(Assistant, the ai)] else [])) history)
       @ [(User, user_input)]"
    by (simp add: ai_tutor_messages_def append_history_concat)
  show "snd (ai_tutor e user_input history) = [ai_tutor_request e user_input history]"
    by (simp add: ai_tutor_def Let_def)
  show "req_messages (ai_tutor_request e user_input history) =
       ai_tutor_messages e user_input history"
    by (simp add: ai_tutor_request_def)
  assume "\<forall>t \<in> set history. truthy (fst t) \<and> truthy (snd t)"
  then show "ai_tutor_messages e user_input history =
          (System, SYSTEM_PROMPT e)
            # concat (map (\<lambda>(human, ai). [(User, the human), (Assistant, the ai)]) history)
            @ [(User, user_input)]"
    using g concat_map_full_turns by simp
qed

theorem ai_tutor_message_list_witness:
  "truthy (Some ''hi'') \<and> truthy (Some ''hello'')
   \<and> ai_tutor_messages (sample_env (answers ''ok'') never_raises) ''why?''
        [(Some ''hi'', Some ''hello'')] =
       [(System, ''You are a patient STEM tutor.''), (User, ''hi''), (Assistant, ''hello''),
        (User, ''why?'')]"
  using ai_tutor_message_list [of "sample_env (answers ''ok'') never_raises" "''why?''"
          "[(Some ''hi'', Some ''hello'')]"]
  by (simp add: truthy_def sample_env_def)

text \<open>
  A turn whose reply is absent contributes a user message and no assistant message, so
  the list is not one pair per turn.
\<close>

theorem ai_tutor_skips_absent_reply:
  "ai_tutor_messages (sample_env (answers ''ok'') never_raises) ''why?'' [(Some ''hi'', None)] =
     [(System, ''You are a patient STEM tutor.''), (User, ''hi''), (User, ''why?'')]
   \<and> map fst (ai_tutor_messages (sample_env (answers ''ok'') never_raises) ''why?''
                 [(Some ''hi'', None)]) \<noteq> [System, User, Assistant, User]"
  by (simp add: ai_tutor_messages_def truthy_def sample_env_def)

section \<open>The two format checks\<close>

text \<open>
  C4. On the response line "1) Yes. Why?" the parser returns the suggestion "Why?": the
  line starts with a digit and holds ". " further on, which is all the parser tests,
  although the digit is not followed by ". ".
\<close>

theorem parser_accepts_later_separator:
  "line_suggestion ''1) Yes. Why?'' = Some ''Why?''
   \<and> parse_suggestions ''1) Yes. Why?'' = [''Why?'']
   \<and> \<not> startswith (strip ''1) Yes. Why?'') ''1. ''"
  by code_simp

text \<open>
  C5. When the completion returns "## Fractions", which begins with a level-2 heading,
  the content generator returns it unchanged: the test is for a leading "#" only, and no
  level-1 heading line is put in front.
\<close>

theorem level2_heading_not_prefixed:
  "fst (generate_study_guide_content (sample_env (answers ''## Fractions'') never_raises)
          [(Some ''hi'', Some ''hello'')]) = ''## Fractions''
   \<and> \<not> startswith ''## Fractions'' ''# ''"
  by (simp add: generate_study_guide_content_def sample_env_def answers_def Let_def
        startswith_def strip_def isspace_def)

section \<open>Properties of the submit handlers\<close>




section \<open>Properties of the PDF renderer\<close>

lemma for_each_returns:
  "(\<And>x tr. snd (step x tr) = Returned) \<Longrightarrow> snd (for_each step xs tr) = Returned"
proof (induction xs arbitrary: tr)
  case Nil
  show ?case by simp
next
  case (Cons x xs)
  obtain tr' where s: "step x tr = (tr', Returned)"
    using Cons.prems [of x tr] by (cases "step x tr") auto
  show ?case using Cons.IH [OF Cons.prems] by (simp add: s)
qed

lemma for_each_append:
  "(\<And>x tr. snd (step x tr) = Returned) \<Longrightarrow>
   for_each step (xs @ ys) tr = for_each step ys (fst (for_each step xs tr))"
proof (induction xs arbitrary: tr)
  case Nil
  show ?case by simp
next
  case (Cons x xs)
  obtain tr' where s: "step x tr = (tr', Returned)"
    using Cons.prems [of x tr] by (cases "step x tr") auto
  show ?case using Cons.IH [OF Cons.prems] by (simp add: s)
qed

lemma calls_returned:
  "snd (calls raises cs tr) = Returned \<Longrightarrow>
   fst (calls raises cs tr) = tr @ map (\<lambda>c. (c, True)) cs"
  by (induction cs arbitrary: tr) (auto split: option.splits)

lemma calls_raised:
  "snd (calls raises cs tr) = Raised err \<Longrightarrow>
   \<exists>pre bad post. cs = pre @ bad # post
     \<and> fst (calls raises cs tr) = tr @ map (\<lambda>c. (c, True)) pre @ [(bad, False)]"
proof (induction cs arbitrary: tr)
  case Nil
  then show ?case by simp
next
  case (Cons c cs)
  show ?case
  proof (cases "raises tr c")
    case (Some err')
    then have "c # cs = [] @ c # cs
       \<and> fst (calls raises (c # cs) tr) = tr @ map (\<lambda>c. (c, True)) [] @ [(c, False)]"
      by simp
    then show ?thesis by blast
  next
    case None
    with Cons.prems have "snd (calls raises cs (tr @ [(c, True)])) = Raised err" by simp
    from Cons.IH [OF this] obtain pre bad post where
      "cs = pre @ bad # post"
      "fst (calls raises cs (tr @ [(c, True)])) =
         (tr @ [(c, True)]) @ map (\<lambda>c. (c, True)) pre @ [(bad, False)]"
      by blast
    with None have "c # cs = (c # pre) @ bad # post
       \<and> fst (calls raises (c # cs) tr) = tr @ map (\<lambda>c. (c, True)) (c # pre) @ [(bad, False)]"
      by simp
    then show ?thesis by blast
  qed
qed

lemma render_line_ok:
  "snd (calls (fpdf_raises e) (line_ops line) tr) = Returned \<Longrightarrow>
   render_line e line tr = (tr @ map (\<lambda>c. (c, True)) (line_ops line), Returned)"
  using calls_returned [of "fpdf_raises e" "line_ops line" tr]
  by (cases "calls (fpdf_raises e) (line_ops line) tr") (simp add: render_line_def try_except_def)

lemma render_line_printed:
  "snd (calls (fpdf_raises e) (line_ops line) tr) = Raised err \<Longrightarrow>
   print_raises e (''Skipping PDF line due to error: '' @ err @ '' - Line: ''
                    @ [CHR 0x27] @ take 50 (strip line) @ ''...'' @ [CHR 0x27]) = None \<Longrightarrow>
   render_line e line tr =
     (fst (calls (fpdf_raises e) placeholder_ops (fst (calls (fpdf_raises e) (line_ops line) tr))),
      Returned)"
  by (cases "calls (fpdf_raises e) (line_ops line) tr")
     (simp add: render_line_def try_except_def try_pass_def seq_def print_to_def)

lemma render_line_returns:
  assumes "\<forall>text. print_raises e text = None"
  shows "snd (render_line e line tr) = Returned"
proof (cases "snd (calls (fpdf_raises e) (line_ops line) tr)")
  case Returned
  then show ?thesis by (simp add: render_line_ok)
next
  case (Raised err)
  then show ?thesis using assms by (simp add: render_line_printed)
qed

lemma render_lines_returns:
  "\<forall>text. print_raises e text = None \<Longrightarrow> snd (render_lines e lines tr) = Returned"
  unfolding render_lines_def by (rule for_each_returns) (rule render_line_returns)

lemma create_pdf_printing:
  assumes "\<forall>text. print_raises e text = None"
  shows "create_pdf e study_guide_text =
     (if FPDF_present e
         \<and> snd (calls (fpdf_raises e)
                  [NewFPDF, AddPage, SetAutoPageBreak True 15, SetFont ''Arial'' [] 12] [])
             = Returned
      then
        (case pdf_tempfile e of
           None \<Rightarrow> None
         | Some pdf_path \<Rightarrow>
             (case fpdf_raises e
                     (fst (render_lines e (split_chr nl (strip study_guide_text))
                             (fst (calls (fpdf_raises e)
                                     [NewFPDF, AddPage, SetAutoPageBreak True 15,
                                      SetFont ''Arial'' [] 12] []))))
                     (Output pdf_path) of
                None \<Rightarrow> Some pdf_path
              | Some err \<Rightarrow> None))
      else None)"
proof -
  let ?init = "calls (fpdf_raises e)
                  [NewFPDF, AddPage, SetAutoPageBreak True 15, SetFont ''Arial'' [] 12] []"
  obtain tr0 out0 where s: "?init = (tr0, out0)" by (cases ?init)
  let ?loop = "render_lines e (split_chr nl (strip study_guide_text)) tr0"
  have "snd ?loop = Returned" using assms by (rule render_lines_returns)
  then obtain tr1 where r: "?loop = (tr1, Returned)" by (cases ?loop) auto
  show ?thesis
    unfolding create_pdf_def
    by (cases out0)
       (simp_all add: s r del: calls.simps split: option.splits, simp_all split: option.splits)
qed

text \<open>
  C1 (as the code has it). In the loop of \<open>create_pdf\<close> over the lines, a line whose calls
  all return adds exactly those calls. When a call of a line raises and the \<open>print\<close> of
  the \<open>except\<close> branch returns, the line ends normally: the calls made before the failure
  stay, and, provided the four guarded calls that write the placeholder return, they are
  followed by the placeholder "[Skipped line due to processing error]" in red 8-point
  italics; when one of those four calls raises, the rest of the placeholder is dropped
  and the line still ends normally. On a standard output on which no \<open>print\<close> raises, the
  loop therefore never ends with an exception, every line after a failed one is processed
  from the state the failed line left, and \<open>create_pdf\<close> returns the path of the document
  exactly when the library is present, the set-up calls return, the temporary file is
  created and the final output call returns, whichever lines failed.
\<close>

theorem bad_line_never_aborts:
  "((\<forall>text. print_raises e text = None) \<longrightarrow>
      snd (render_lines e lines tr) = Returned
      \<and> render_lines e (before @ line # after) tr =
          render_lines e after (fst (render_line e line (fst (render_lines e before tr)))))
   \<and> (snd (calls (fpdf_raises e) (line_ops line) tr) = Returned \<longrightarrow>
        render_line e line tr = (tr @ map (\<lambda>c. (c, True)) (line_ops line), Returned))
   \<and> (snd (calls (fpdf_raises e) (line_ops line) tr) = Raised err
        \<and> print_raises e (''Skipping PDF line due to error: '' @ err @ '' - Line: ''
                            @ [CHR 0x27] @ take 50 (strip line) @ ''...'' @ [CHR 0x27]) = None
      \<longrightarrow> snd (render_line e line tr) = Returned
          \<and> (snd (calls (fpdf_raises e)
                     [SetFont ''Arial'' ''I'' 8, SetTextColor 255 0 0,
                      MultiCell 0 6 ''[Skipped line due to processing error]'',
                      SetTextColor 0 0 0]
                     (fst (calls (fpdf_raises e) (line_ops line) tr))) = Returned
             \<longrightarrow> (\<exists>pre bad post. line_ops line = pre @ bad # post
                    \<and> fst (render_line e line tr) =
                        tr @ map (\<lambda>c. (c, True)) pre @ [(bad, False)]
                           @ [(SetFont ''Arial'' ''I'' 8, True), (SetTextColor 255 0 0, True),
                              (MultiCell 0 6 ''[Skipped line due to processing error]'', True),
                              (SetTextColor 0 0 0, True)])))
   \<and> ((\<forall>text. print_raises e text = None) \<longrightarrow>
        create_pdf e study_guide_text =
          (if FPDF_present e
              \<and> snd (calls (fpdf_raises e)
                       [NewFPDF, AddPage, SetAutoPageBreak True 15, SetFont ''Arial'' [] 12] [])
                  = Returned
           then
             (case pdf_tempfile e of
                None \<Rightarrow> None
              | Some pdf_path \<Rightarrow>
                  (case fpdf_raises e
                          (fst (render_lines e (split_chr nl (strip study_guide_text))
                                  (fst (calls (fpdf_raises e)
                                          [NewFPDF, AddPage, SetAutoPageBreak True 15,
                                           SetFont ''Arial'' [] 12] []))))
                          (Output pdf_path) of
                     None \<Rightarrow> Some pdf_path
                   | Some err \<Rightarrow> None))
           else None))"
proof (intro conjI impI)
  assume p: "\<forall>text. print_raises e text = None"
  show "snd (render_lines e lines tr) = Returned"
    using p by (rule render_lines_returns)
  have "render_lines e (before @ line # after) tr =
          render_lines e (line # after) (fst (render_lines e before tr))"
    unfolding render_lines_def by (rule for_each_append) (rule render_line_returns [OF p])
  moreover have "render_lines e (line # after) tr0 =
          render_lines e after (fst (render_line e line tr0))" for tr0
    using render_line_returns [OF p, of line tr0]
    by (cases "render_line e line tr0") (simp add: render_lines_def)
  ultimately show "render_lines e (before @ line # after) tr =
          render_lines e after (fst (render_line e line (fst (render_lines e before tr))))"
    by simp
next
  assume "snd (calls (fpdf_raises e) (line_ops line) tr) = Returned"
  then show "render_line e line tr = (tr @ map (\<lambda>c. (c, True)) (line_ops line), Returned)"
    by (rule render_line_ok)
next
  assume a: "snd (calls (fpdf_raises e) (line_ops line) tr) = Raised err
        \<and> print_raises e (''Skipping PDF line due to error: '' @ err @ '' - Line: ''
                            @ [CHR 0x27] @ take 50 (strip line) @ ''...'' @ [CHR 0x27]) = None"
  then show "snd (render_line e line tr) = Returned"
    by (simp add: render_line_printed)
next
  assume a: "snd (calls (fpdf_raises e) (line_ops line) tr) = Raised err
        \<and> print_raises e (''Skipping PDF line due to error: '' @ err @ '' - Line: ''
                            @ [CHR 0x27] @ take 50 (strip line) @ ''...'' @ [CHR 0x27]) = None"
  assume b: "snd (calls (fpdf_raises e)
                     [SetFont ''Arial'' ''I'' 8, SetTextColor 255 0 0,
                      MultiCell 0 6 ''[Skipped line due to processing error]'',
                      SetTextColor 0 0 0]
                     (fst (calls (fpdf_raises e) (line_ops line) tr))) = Returned"
  have ph: "placeholder_ops =
              [SetFont ''Arial'' ''I'' 8, SetTextColor 255 0 0,
               MultiCell 0 6 ''[Skipped line due to processing error]'', SetTextColor 0 0 0]"
    by (simp add: placeholder_ops_def line_height_def skip_marker_def)
  obtain pre bad post where
    l: "line_ops line = pre @ bad # post" and
    f: "fst (calls (fpdf_raises e) (line_ops line) tr) =
          tr @ map (\<lambda>c. (c, True)) pre @ [(bad, False)]"
    using a calls_raised [of "fpdf_raises e" "line_ops line" tr err] by blast
  have "fst (render_line e line tr) =
          fst (calls (fpdf_raises e) placeholder_ops
                 (fst (calls (fpdf_raises e) (line_ops line) tr)))"
    using a by (simp add: render_line_printed)
  also have "\<dots> = fst (calls (fpdf_raises e) (line_ops line) tr)
                    @ map (\<lambda>c. (c, True)) placeholder_ops"
    using b unfolding ph [symmetric] by (rule calls_returned)
  finally have "fst (render_line e line tr) =
                  tr @ map (\<lambda>c. (c, True)) pre @ [(bad, False)]
                     @ [(SetFont ''Arial'' ''I'' 8, True), (SetTextColor 255 0 0, True),
                        (MultiCell 0 6 ''[Skipped line due to processing error]'', True),
                        (SetTextColor 0 0 0, True)]"
    by (simp add: f ph)
  with l show "\<exists>pre bad post. line_ops line = pre @ bad # post
                    \<and> fst (render_line e line tr) =
                        tr @ map (\<lambda>c. (c, True)) pre @ [(bad, False)]
                           @ [(SetFont ''Arial'' ''I'' 8, True), (SetTextColor 255 0 0, True),
                              (MultiCell 0 6 ''[Skipped line due to processing error]'', True),
                              (SetTextColor 0 0 0, True)]"
    by blast
next
  assume "\<forall>text. print_raises e text = None"
  then show "create_pdf e study_guide_text =
          (if FPDF_present e
              \<and> snd (calls (fpdf_raises e)
                       [NewFPDF, AddPage, SetAutoPageBreak True 15, SetFont ''Arial'' [] 12] [])
                  = Returned
           then
             (case pdf_tempfile e of
                None \<Rightarrow> None
              | Some pdf_path \<Rightarrow>
                  (case fpdf_raises e
                          (fst (render_lines e (split_chr nl (strip study_guide_text))
                                  (fst (calls (fpdf_raises e)
                                          [NewFPDF, AddPage, SetAutoPageBreak True 15,
                                           SetFont ''Arial'' [] 12] []))))
                          (Output pdf_path) of
                     None \<Rightarrow> Some pdf_path
                   | Some err \<Rightarrow> None))
           else None)"
    by (rule create_pdf_printing)
qed

theorem bad_line_never_aborts_witness:
  "(\<forall>text. print_raises (sample_env (answers ''ok'') font_raises) text = None)
   \<and> snd (render_lines (sample_env (answers ''ok'') font_raises)
            [''# Title'', ''caf'' @ [CHR 0xE9], ''plain''] []) = Returned
   \<and> render_lines (sample_env (answers ''ok'') font_raises)
        ([''# Title''] @ (''caf'' @ [CHR 0xE9]) # [''plain'']) [] =
       render_lines (sample_env (answers ''ok'') font_raises) [''plain'']
         (fst (render_line (sample_env (answers ''ok'') font_raises) (''caf'' @ [CHR 0xE9])
                 (fst (render_lines (sample_env (answers ''ok'') font_raises)
                         [''# Title''] []))))
   \<and> snd (calls (fpdf_raises (sample_env (answers ''ok'') font_raises))
            (line_ops ''plain'') []) = Returned
   \<and> render_line (sample_env (answers ''ok'') font_raises) ''plain'' [] =
       ([(SetFont ''Arial'' [] 12, True), (MultiCell 0 6 ''plain'', True)], Returned)
   \<and> snd (calls (fpdf_raises (sample_env (answers ''ok'') font_raises))
            (line_ops (''caf'' @ [CHR 0xE9])) []) =
       Raised ''Character outside the range of the font''
   \<and> snd (render_line (sample_env (answers ''ok'') font_raises) (''caf'' @ [CHR 0xE9]) [])
       = Returned
   \<and> snd (calls (fpdf_raises (sample_env (answers ''ok'') font_raises))
            [SetFont ''Arial'' ''I'' 8, SetTextColor 255 0 0,
             MultiCell 0 6 ''[Skipped line due to processing error]'', SetTextColor 0 0 0]
            (fst (calls (fpdf_raises (sample_env (answers ''ok'') font_raises))
                    (line_ops (''caf'' @ [CHR 0xE9])) []))) = Returned
   \<and> (\<exists>pre bad post. line_ops (''caf'' @ [CHR 0xE9]) = pre @ bad # post
         \<and> fst (render_line (sample_env (answers ''ok'') font_raises)
                  (''caf'' @ [CHR 0xE9]) []) =
             [] @ map (\<lambda>c. (c, True)) pre @ [(bad, False)]
                @ [(SetFont ''Arial'' ''I'' 8, True), (SetTextColor 255 0 0, True),
                   (MultiCell 0 6 ''[Skipped line due to processing error]'', True),
                   (SetTextColor 0 0 0, True)])
   \<and> create_pdf (sample_env (answers ''ok'') font_raises)
        (''# Title'' @ [nl] @ ''caf'' @ [CHR 0xE9] @ [nl] @ ''plain'') = Some ''/tmp/guide.pdf''"
proof -
  let ?bad = "''caf'' @ [CHR 0xE9]"
  let ?e = "sample_env (answers ''ok'') font_raises"
  let ?err = "''Character outside the range of the font''"
  let ?text = "''# Title'' @ [nl] @ ''caf'' @ [CHR 0xE9] @ [nl] @ ''plain''"
  have p: "\<forall>text. print_raises ?e text = None"
    by (simp add: sample_env_def utf8_stdout_def)
  have f: "fpdf_raises ?e = font_raises"
    by (simp add: sample_env_def)
  have h1: "snd (calls (fpdf_raises ?e) (line_ops ?bad) []) = Raised ?err"
    unfolding f by code_simp
  have h2: "snd (calls (fpdf_raises ?e)
                  [SetFont ''Arial'' ''I'' 8, SetTextColor 255 0 0,
                   MultiCell 0 6 ''[Skipped line due to processing error]'', SetTextColor 0 0 0]
                  (fst (calls (fpdf_raises ?e) (line_ops ?bad) []))) = Returned"
    unfolding f by code_simp
  have h3: "snd (calls (fpdf_raises ?e) (line_ops ''plain'') []) = Returned"
    unfolding f by code_simp
  have l3: "line_ops ''plain'' = [SetFont ''Arial'' [] 12, MultiCell 0 6 ''plain'']"
    by code_simp
  have e1: "FPDF_present ?e" "pdf_tempfile ?e = Some ''/tmp/guide.pdf''"
    by (simp_all add: sample_env_def)
  have e2: "snd (calls (fpdf_raises ?e)
                 [NewFPDF, AddPage, SetAutoPageBreak True 15, SetFont ''Arial'' [] 12] [])
            = Returned"
    unfolding f by (simp add: font_raises_def)
  have e3: "fpdf_raises ?e tr' (Output ''/tmp/guide.pdf'') = None" for tr'
    unfolding f by (simp add: font_raises_def)
  note a = bad_line_never_aborts [of ?e "[''# Title'', ?bad, ''plain'']" "[]"
             "[''# Title'']" ?bad "[''plain'']" ?err ?text]
  note b = bad_line_never_aborts [of ?e "[]" "[]" "[]" "''plain''" "[]" ?err "[]"]
  from a p have c1: "snd (render_lines ?e [''# Title'', ?bad, ''plain''] []) = Returned"
    by blast
  from a p have c2: "render_lines ?e ([''# Title''] @ ?bad # [''plain'']) [] =
       render_lines ?e [''plain'']
         (fst (render_line ?e ?bad (fst (render_lines ?e [''# Title''] []))))"
    by blast
  from b h3 have c3: "render_line ?e ''plain'' [] =
       ([(SetFont ''Arial'' [] 12, True), (MultiCell 0 6 ''plain'', True)], Returned)"
    by (simp add: l3)
  from a h1 p have c4: "snd (render_line ?e ?bad []) = Returned"
    by blast
  from a h1 h2 p have c5: "\<exists>pre bad post. line_ops ?bad = pre @ bad # post
         \<and> fst (render_line ?e ?bad []) =
             [] @ map (\<lambda>c. (c, True)) pre @ [(bad, False)]
                @ [(SetFont ''Arial'' ''I'' 8, True), (SetTextColor 255 0 0, True),
                   (MultiCell 0 6 ''[Skipped line due to processing error]'', True),
                   (SetTextColor 0 0 0, True)]"
    by blast
  from a p have "create_pdf ?e ?text =
          (if FPDF_present ?e
              \<and> snd (calls (fpdf_raises ?e)
                       [NewFPDF, AddPage, SetAutoPageBreak True 15, SetFont ''Arial'' [] 12] [])
                  = Returned
           then
             (case pdf_tempfile ?e of
                None \<Rightarrow> None
              | Some pdf_path \<Rightarrow>
                  (case fpdf_raises ?e
                          (fst (render_lines ?e (split_chr nl (strip ?text))
                                  (fst (calls (fpdf_raises ?e)
                                          [NewFPDF, AddPage, SetAutoPageBreak True 15,
                                           SetFont ''Arial'' [] 12] []))))
                          (Output pdf_path) of
                     None \<Rightarrow> Some pdf_path
                   | Some err \<Rightarrow> None))
           else None)"
    by blast
  then have c6: "create_pdf ?e ?text = Some ''/tmp/guide.pdf''"
    by (simp only: e1 e2 e3 if_True simp_thms option.case)
  from p c1 c2 h3 c3 h1 c4 h2 c5 c6 show ?thesis
    by blast
qed

text \<open>
  On a PDF object whose \<open>multi_cell\<close> raises on every text, the line "hello" fails and so
  does the placeholder: the guarded placeholder write is dropped, and no placeholder
  is in the output.
\<close>

theorem placeholder_can_fail_too:
  "snd (calls (fpdf_raises (sample_env (answers ''ok'') multi_cell_raises))
          (line_ops ''hello'') []) = Raised ''Not enough horizontal space''
   \<and> render_lines (sample_env (answers ''ok'') multi_cell_raises) [''hello''] [] =
       ([(SetFont ''Arial'' [] 12, True), (MultiCell 0 6 ''hello'', False),
         (SetFont ''Arial'' ''I'' 8, True), (SetTextColor 255 0 0, True),
         (MultiCell 0 6 ''[Skipped line due to processing error]'', False)], Returned)
   \<and> (MultiCell 0 6 ''[Skipped line due to processing error]'', True)
       \<notin> set (fst (render_lines (sample_env (answers ''ok'') multi_cell_raises)
                      [''hello''] []))"
  by (simp add: render_lines_def render_line_def try_except_def try_pass_def seq_def
        print_to_def line_ops_def placeholder_ops_def multi_cell_raises_def sample_env_def
        utf8_stdout_def line_height_def skip_marker_def Let_def
        strip_def isspace_def isdigit_def startswith_def contains_def)

text \<open>
  The \<open>print\<close> of the \<open>except\<close> branch is outside the inner \<open>try\<close>. On a standard output
  that cannot encode the failing line it raises, the loop is left at that line and
  \<open>create_pdf\<close> returns no path.
\<close>

lemma print_failure_leaves_loop:
  "render_lines ((sample_env (answers ''ok'') font_raises)\<lparr>print_raises := ascii_stdout\<rparr>)
     [''caf'' @ [CHR 0xE9], ''plain''] [] =
     ([(SetFont ''Arial'' [] 12, True), (MultiCell 0 6 (''caf'' @ [CHR 0xE9]), False)],
      Raised ''codec cannot encode character'')
   \<and> create_pdf ((sample_env (answers ''ok'') font_raises)\<lparr>print_raises := ascii_stdout\<rparr>)
        (''caf'' @ [CHR 0xE9] @ [nl] @ ''plain'') = None"
  by code_simp

section \<open>Properties of saving and exporting the study guide\<close>








end
